theory Spec2Isabelle
  imports Complex_Main
begin

section \<open>Strings, runes and white space\<close>

text \<open>
  A Go string is a sequence of bytes, here a \<open>string\<close> (a list of 8-bit \<open>char\<close>s);
  \<open>len\<close> is \<open>length\<close> and \<open>s[a:b]\<close> is \<open>take\<close>/\<open>drop\<close>. A \<open>for range\<close> loop, the regular
  expression engine and the white-space functions of package \<open>strings\<close> read a string
  rune by rune, decoding UTF-8 and yielding \<open>RuneError\<close> of width 1 at a byte that starts
  no valid encoding. Runes are natural numbers (code points).
\<close>

type_synonym rune = nat

definition RuneError :: rune where
  "RuneError = 65533"

text \<open>\<open>utf8.DecodeRuneInString\<close>: the first rune of a string and its width in bytes.\<close>

definition acceptLo :: "nat \<Rightarrow> nat" where
  "acceptLo s0 = (if s0 = 224 then 160 else if s0 = 240 then 144 else 128)"

definition acceptHi :: "nat \<Rightarrow> nat" where
  "acceptHi s0 = (if s0 = 237 then 159 else if s0 = 244 then 143 else 191)"

definition isCont :: "nat \<Rightarrow> bool" where
  "isCont b = (128 \<le> b \<and> b \<le> 191)"

fun DecodeRune :: "string \<Rightarrow> rune \<times> nat" where
  "DecodeRune [] = (RuneError, 0)"
| "DecodeRune [c0] =
     (if of_char c0 < (128::nat) then (of_char c0, 1) else (RuneError, 1))"
| "DecodeRune [c0, c1] =
     (let s0 = of_char c0 :: nat; s1 = of_char c1 :: nat in
      if s0 < 128 then (s0, 1)
      else if s0 < 194 \<or> 244 < s0 then (RuneError, 1)
      else if 224 \<le> s0 then (RuneError, 1)
      else if s1 < acceptLo s0 \<or> acceptHi s0 < s1 then (RuneError, 1)
      else ((s0 mod 32) * 64 + s1 mod 64, 2))"
| "DecodeRune [c0, c1, c2] =
     (let s0 = of_char c0 :: nat; s1 = of_char c1 :: nat; s2 = of_char c2 :: nat in
      if s0 < 128 then (s0, 1)
      else if s0 < 194 \<or> 244 < s0 then (RuneError, 1)
      else if 240 \<le> s0 then (RuneError, 1)
      else if s1 < acceptLo s0 \<or> acceptHi s0 < s1 then (RuneError, 1)
      else if s0 < 224 then ((s0 mod 32) * 64 + s1 mod 64, 2)
      else if \<not> isCont s2 then (RuneError, 1)
      else ((s0 mod 16) * 4096 + (s1 mod 64) * 64 + s2 mod 64, 3))"
| "DecodeRune (c0 # c1 # c2 # c3 # cs) =
     (let s0 = of_char c0 :: nat; s1 = of_char c1 :: nat; s2 = of_char c2 :: nat;
          s3 = of_char c3 :: nat in
      if s0 < 128 then (s0, 1)
      else if s0 < 194 \<or> 244 < s0 then (RuneError, 1)
      else if s1 < acceptLo s0 \<or> acceptHi s0 < s1 then (RuneError, 1)
      else if s0 < 224 then ((s0 mod 32) * 64 + s1 mod 64, 2)
      else if \<not> isCont s2 then (RuneError, 1)
      else if s0 < 240 then ((s0 mod 16) * 4096 + (s1 mod 64) * 64 + s2 mod 64, 3)
      else if \<not> isCont s3 then (RuneError, 1)
      else ((s0 mod 8) * 262144 + (s1 mod 64) * 4096 + (s2 mod 64) * 64 + s3 mod 64, 4))"

text \<open>
  \<open>utf8.DecodeLastRuneInString\<close>: the last rune of a string and its width. It looks back
  over at most \<open>UTFMax = 4\<close> bytes for a byte that is no continuation byte, decodes
  forward from there, and accepts the result only if it ends where the string does.
\<close>

definition RuneStart :: "char \<Rightarrow> bool" where
  "RuneStart c = (\<not> isCont (of_char c))"

fun lastStart :: "string \<Rightarrow> nat \<Rightarrow> nat \<Rightarrow> nat" where
  "lastStart s lo start =
     (if start < lo then start
      else if RuneStart (s ! start) then start
      else if start = 0 then 0
      else lastStart s lo (start - 1))"

definition DecodeLastRune :: "string \<Rightarrow> rune \<times> nat" where
  "DecodeLastRune s =
     (let e = length s in
      if e = 0 then (RuneError, 0)
      else if of_char (s ! (e - 1)) < (128::nat) then (of_char (s ! (e - 1)), 1)
      else
        let start = lastStart s (e - 4) (e - 2) in
        case DecodeRune (drop start s) of (r, n) \<Rightarrow>
          if start + n \<noteq> e then (RuneError, 1) else (r, n))"

text \<open>\<open>unicode.IsSpace\<close>: the white space of Latin-1 and the White_Space property beyond.\<close>

definition IsSpace :: "rune \<Rightarrow> bool" where
  "IsSpace r =
     ((9 \<le> r \<and> r \<le> 13) \<or> r = 32 \<or> r = 133 \<or> r = 160 \<or> r = 5760
      \<or> (8192 \<le> r \<and> r \<le> 8202) \<or> r = 8232 \<or> r = 8233 \<or> r = 8239 \<or> r = 8287
      \<or> r = 12288)"

lemma DecodeRune_width: "s \<noteq> [] \<Longrightarrow> 1 \<le> snd (DecodeRune s) \<and> snd (DecodeRune s) \<le> length s"
  by (cases s rule: DecodeRune.cases) (simp_all add: Let_def)

lemma DecodeRune_drop:
  "s \<noteq> [] \<Longrightarrow> (r, n) = DecodeRune s \<Longrightarrow> length s - n < length s"
  using DecodeRune_width [of s] by (cases "DecodeRune s") simp

text \<open>The runes a \<open>for range\<close> loop over a string visits.\<close>

function runes :: "string \<Rightarrow> rune list" where
  "runes s =
     (if s = [] then []
      else case DecodeRune s of (r, n) \<Rightarrow> r # runes (drop n s))"
  by pat_completeness auto
termination
  by (relation "measure length") (auto intro: DecodeRune_drop)

declare runes.simps [simp del]

text \<open>
  \<open>strings.TrimSpace\<close> is \<open>TrimRightFunc\<close> after \<open>TrimLeftFunc\<close> with \<open>unicode.IsSpace\<close>:
  leading runes are read forwards, trailing runes backwards.
\<close>

function trimLeft :: "string \<Rightarrow> string" where
  "trimLeft s =
     (if s = [] then []
      else case DecodeRune s of (r, n) \<Rightarrow> if IsSpace r then trimLeft (drop n s) else s)"
  by pat_completeness auto
termination
  by (relation "measure length") (auto intro: DecodeRune_drop)

declare trimLeft.simps [simp del]

declare lastStart.simps [simp del]

lemma lastStart_le: "lastStart s lo start \<le> start"
proof (induction s lo start rule: lastStart.induct)
  case (1 s lo start)
  show ?case
  proof (cases "start < lo \<or> RuneStart (s ! start) \<or> start = 0")
    case True
    then show ?thesis by (subst lastStart.simps) auto
  next
    case False
    with 1 have "lastStart s lo (start - 1) \<le> start - 1" by simp
    with False show ?thesis by (subst lastStart.simps) auto
  qed
qed

lemma DecodeLastRune_width:
  assumes "s \<noteq> []"
  shows "1 \<le> snd (DecodeLastRune s) \<and> snd (DecodeLastRune s) \<le> length s"
proof (cases "of_char (s ! (length s - 1)) < (128::nat)")
  case True
  with assms show ?thesis by (cases s) (simp_all add: DecodeLastRune_def Let_def)
next
  case False
  define start where "start = lastStart s (length s - 4) (length s - 2)"
  obtain r n where d: "DecodeRune (drop start s) = (r, n)"
    by (cases "DecodeRune (drop start s)")
  show ?thesis
  proof (cases "start + n = length s")
    case True
    moreover have "start < length s"
      using lastStart_le [of s "length s - 4" "length s - 2"] assms
      by (cases s) (simp_all add: start_def)
    then have "drop start s \<noteq> []" by simp
    with DecodeRune_width [of "drop start s"] d have "1 \<le> n" by simp
    ultimately show ?thesis
      using assms False d by (simp add: DecodeLastRune_def Let_def start_def)
  next
    case False
    with assms \<open>\<not> of_char (s ! (length s - 1)) < (128::nat)\<close> d show ?thesis
      by (simp add: DecodeLastRune_def Let_def start_def Suc_leI)
  qed
qed

function trimRight :: "string \<Rightarrow> string" where
  "trimRight s =
     (if s = [] then []
      else case DecodeLastRune s of (r, n) \<Rightarrow>
        if IsSpace r then trimRight (take (length s - n) s) else s)"
  by pat_completeness auto
termination
proof (relation "measure length", goal_cases)
  case 1
  show ?case by simp
next
  case (2 s r n)
  then show ?case using DecodeLastRune_width [of s] by (cases "DecodeLastRune s") auto
qed

declare trimRight.simps [simp del]

definition TrimSpace :: "string \<Rightarrow> string" where
  "TrimSpace s = trimRight (trimLeft s)"

text \<open>
  \<open>strings.Fields\<close>: the maximal runs of runes that are not white space. The first
  argument is the field being read (empty while none is started).
\<close>

function fieldsFrom :: "string \<Rightarrow> string \<Rightarrow> string list" where
  "fieldsFrom cur s =
     (if s = [] then (if cur = [] then [] else [cur])
      else case DecodeRune s of (r, n) \<Rightarrow>
        if IsSpace r then
          (if cur = [] then fieldsFrom [] (drop n s) else cur # fieldsFrom [] (drop n s))
        else fieldsFrom (cur @ take n s) (drop n s))"
  by pat_completeness auto
termination
  by (relation "measure (\<lambda>(cur, s). length s)") (auto intro: DecodeRune_drop)

declare fieldsFrom.simps [simp del]

definition Fields :: "string \<Rightarrow> string list" where
  "Fields s = fieldsFrom [] s"

definition HasPrefix :: "string \<Rightarrow> string \<Rightarrow> bool" where
  "HasPrefix s p = (take (length p) s = p)"

definition HasSuffix :: "string \<Rightarrow> string \<Rightarrow> bool" where
  "HasSuffix s p = (length p \<le> length s \<and> drop (length s - length p) s = p)"

text \<open>\<open>strings.Join\<close> with a single space.\<close>

fun Join :: "string list \<Rightarrow> string" where
  "Join [] = []"
| "Join [t] = t"
| "Join (t # ts) = t @ '' '' @ Join ts"

section \<open>Regular expressions\<close>

text \<open>
  A compiled \<open>*regexp.Regexp\<close> is its syntax tree. Matching is leftmost-first: the
  matcher lists the states reachable from a position in the order of preference of a
  backtracking search (left alternative first, greedy repetition), and the head of that
  list is the match. A state is the byte offset, the rest of the input and the capture
  groups closed so far. \<open>Cls neg rs\<close> is a character class given by code-point ranges,
  negated when \<open>neg\<close> holds; an iteration of \<open>Star\<close> that consumes nothing is dropped.
\<close>

datatype regex =
    Cls bool "(rune \<times> rune) list"
  | Eps
  | Seq regex regex
  | Alt regex regex
  | Star regex
  | Grp nat regex
  | Bol
  | Eol
  | WordB

type_synonym caps = "(nat \<times> nat \<times> nat) list"
type_synonym mstate = "nat \<times> string \<times> caps"

definition inClass :: "(rune \<times> rune) list \<Rightarrow> rune \<Rightarrow> bool" where
  "inClass rs r = list_ex (\<lambda>(lo, hi). lo \<le> r \<and> r \<le> hi) rs"

definition isWordByte :: "char \<Rightarrow> bool" where
  "isWordByte c = (let b = of_char c :: nat in
     (48 \<le> b \<and> b \<le> 57) \<or> (65 \<le> b \<and> b \<le> 90) \<or> b = 95 \<or> (97 \<le> b \<and> b \<le> 122))"

definition atWordBoundary :: "string \<Rightarrow> nat \<Rightarrow> bool" where
  "atWordBoundary w i =
     ((0 < i \<and> i \<le> length w \<and> isWordByte (w ! (i - 1))) \<noteq> (i < length w \<and> isWordByte (w ! i)))"

function rmatch :: "regex \<Rightarrow> string \<Rightarrow> mstate \<Rightarrow> mstate list" where
  "rmatch (Cls neg rs) w (i, s, c) =
     (if s = [] then []
      else case DecodeRune s of (r, n) \<Rightarrow>
        if inClass rs r \<noteq> neg then [(i + n, drop n s, c)] else [])"
| "rmatch Eps w st = [st]"
| "rmatch (Seq a b) w st = concat (map (rmatch b w) (rmatch a w st))"
| "rmatch (Alt a b) w st = rmatch a w st @ rmatch b w st"
| "rmatch (Star a) w (i, s, c) =
     concat (map (\<lambda>st'. if length (fst (snd st')) < length s then rmatch (Star a) w st' else [])
                 (rmatch a w (i, s, c))) @ [(i, s, c)]"
| "rmatch (Grp k a) w (i, s, c) =
     map (\<lambda>st'. (fst st', fst (snd st'), (k, i, fst st') # snd (snd st'))) (rmatch a w (i, s, c))"
| "rmatch Bol w (i, s, c) = (if i = 0 then [(i, s, c)] else [])"
| "rmatch Eol w (i, s, c) = (if s = [] then [(i, s, c)] else [])"
| "rmatch WordB w (i, s, c) = (if atWordBoundary w i then [(i, s, c)] else [])"
  by pat_completeness auto
termination
  by (relation "inv_image (measure size <*lex*> measure length) (\<lambda>(r, w, st). (r, fst (snd st)))") auto

declare rmatch.simps [simp del]

definition plus :: "regex \<Rightarrow> regex" where "plus r = Seq r (Star r)"
definition opt :: "regex \<Rightarrow> regex" where "opt r = Alt r Eps"
definition seqs :: "regex list \<Rightarrow> regex" where "seqs rs = foldr Seq rs Eps"
definition alts :: "regex list \<Rightarrow> regex" where "alts rs = foldr Alt (butlast rs) (last rs)"
definition chr :: "char \<Rightarrow> regex" where "chr c = Cls False [(of_char c, of_char c)]"
definition lit :: "string \<Rightarrow> regex" where "lit s = seqs (map chr s)"
definition rng :: "char \<Rightarrow> char \<Rightarrow> rune \<times> rune" where "rng a b = (of_char a, of_char b)"
definition one :: "char \<Rightarrow> rune \<times> rune" where "one a = (of_char a, of_char a)"

fun rep :: "regex \<Rightarrow> nat \<Rightarrow> regex" where
  "rep r 0 = Eps"
| "rep r (Suc n) = Seq r (rep r n)"

fun upto_rep :: "regex \<Rightarrow> nat \<Rightarrow> regex" where
  "upto_rep r 0 = Eps"
| "upto_rep r (Suc n) = opt (Seq r (upto_rep r n))"

definition repMin :: "regex \<Rightarrow> nat \<Rightarrow> regex" where
  "repMin r n = Seq (rep r n) (Star r)"
definition repRange :: "regex \<Rightarrow> nat \<Rightarrow> nat \<Rightarrow> regex" where
  "repRange r n m = Seq (rep r n) (upto_rep r (m - n))"

lemma rmatch_pos:
  "st' \<in> set (rmatch r w st) \<Longrightarrow>
     fst st \<le> fst st' \<and> fst (snd st') = drop (fst st' - fst st) (fst (snd st))"
proof (induction r w st arbitrary: st' rule: rmatch.induct)
  case (1 neg rs w i s c)
  then show ?case by (auto simp: rmatch.simps split: if_splits prod.splits)
next
  case (2 w st)
  then show ?case by (simp add: rmatch.simps)
next
  case (3 a b w st)
  from 3(3) obtain m where m: "m \<in> set (rmatch a w st)" and s: "st' \<in> set (rmatch b w m)"
    by (auto simp: rmatch.simps)
  from 3(1) [OF m] 3(2) [OF m s] show ?case by auto
next
  case (4 a b w st)
  from 4(3) have "st' \<in> set (rmatch a w st) \<or> st' \<in> set (rmatch b w st)"
    by (simp add: rmatch.simps)
  then show ?case using 4(1) 4(2) by blast
next
  case (5 a w i s c)
  from 5(3) consider "st' = (i, s, c)"
    | m where "m \<in> set (rmatch a w (i, s, c))" "length (fst (snd m)) < length s"
        "st' \<in> set (rmatch (Star a) w m)"
    by (subst (asm) rmatch.simps) (auto split: if_splits)
  then show ?case
  proof cases
    case 1
    then show ?thesis by simp
  next
    case 2
    from 5(1) [OF 2(1)] 5(2) [OF 2(1) 2(2) 2(3)] show ?thesis by auto
  qed
next
  case (6 k a w i s c)
  from 6(2) obtain m where "m \<in> set (rmatch a w (i, s, c))"
    "st' = (fst m, fst (snd m), (k, i, fst m) # snd (snd m))"
    by (auto simp: rmatch.simps)
  with 6(1) [of m] show ?case by simp
next
  case (7 w i s c)
  then show ?case by (auto simp: rmatch.simps split: if_splits)
next
  case (8 w i s c)
  then show ?case by (auto simp: rmatch.simps split: if_splits)
next
  case (9 w i s c)
  then show ?case by (auto simp: rmatch.simps split: if_splits)
qed

lemma rmatch_pos_hd: "rmatch r w (i, s, c) = (j, s', c') # rest \<Longrightarrow> i \<le> j"
  using rmatch_pos [of "(j, s', c')" r w "(i, s, c)"] by simp

function findAt :: "regex \<Rightarrow> string \<Rightarrow> nat \<Rightarrow> string \<Rightarrow> (nat \<times> nat \<times> caps) option" where
  "findAt re w i s =
     (case rmatch re w (i, s, []) of
        st # _ \<Rightarrow> Some (i, fst st, snd (snd st))
      | [] \<Rightarrow> if s = [] then None
              else findAt re w (i + snd (DecodeRune s)) (drop (snd (DecodeRune s)) s))"
  by pat_completeness auto
termination
  by (relation "measure (\<lambda>(re, w, i, s). length s)") (use DecodeRune_width in \<open>auto simp: Suc_le_eq\<close>)

declare findAt.simps [simp del]

lemma findAt_pos: "findAt re w i s = Some (a0, a1, cs) \<Longrightarrow> i \<le> a0 \<and> a0 \<le> a1"
proof (induction re w i s rule: findAt.induct)
  case (1 re w i s)
  show ?case
  proof (cases "rmatch re w (i, s, [])")
    case Nil
    with 1(2) have ne: "s \<noteq> []" by (subst (asm) findAt.simps) (auto split: if_splits)
    with Nil 1(2) have "findAt re w (i + snd (DecodeRune s)) (drop (snd (DecodeRune s)) s) = Some (a0, a1, cs)"
      by (subst (asm) findAt.simps) simp
    with 1(1) [OF Nil ne] show ?thesis by simp
  next
    case (Cons st rest)
    with 1(2) have "a0 = i" "a1 = fst st" by (subst (asm) findAt.simps, simp)+
    moreover from Cons have "i \<le> fst st" using rmatch_pos_hd [of re w i s "[]" "fst st" "fst (snd st)" "snd (snd st)" rest] by simp
    ultimately show ?thesis by simp
  qed
qed

definition nextPos :: "string \<Rightarrow> nat \<Rightarrow> nat \<Rightarrow> nat" where
  "nextPos w pos a1 =
     (let width = snd (DecodeRune (drop pos w)) in
      if a1 < pos + width then pos + width
      else if a1 < pos + 1 then pos + 1
      else a1)"

function replaceSegs :: "regex \<Rightarrow> string \<Rightarrow> nat \<Rightarrow> nat \<Rightarrow> (bool \<times> string) list" where
  "replaceSegs re w lastEnd pos =
     (if length w < pos then [(False, drop lastEnd w)]
      else case findAt re w pos (drop pos w) of
          None \<Rightarrow> [(False, drop lastEnd w)]
        | Some (a0, a1, cs) \<Rightarrow>
            (False, take (a0 - lastEnd) (drop lastEnd w)) #
            (if lastEnd < a1 \<or> a0 = 0 then [(True, take (a1 - a0) (drop a0 w))] else []) @
            replaceSegs re w a1 (nextPos w pos a1))"
  by pat_completeness auto
termination
proof (relation "measure (\<lambda>(re, w, lastEnd, pos). Suc (length w) - pos)", goal_cases)
  case 1
  show ?case by simp
next
  case (2 re w lastEnd pos x a0 y a1 cs)
  from 2(2) 2(3) 2(4) have "pos \<le> a1" using findAt_pos [of re w pos "drop pos w" a0 a1 cs] by simp
  then have "pos < nextPos w pos a1" by (auto simp: nextPos_def Let_def)
  with 2(1) show ?case by simp
qed

declare replaceSegs.simps [simp del]

definition ReplaceAllString :: "regex \<Rightarrow> string \<Rightarrow> string \<Rightarrow> string" where
  "ReplaceAllString re src repl =
     concat (map (\<lambda>(m, p). if m then repl else p) (replaceSegs re src 0 0))"

text \<open>
  \<open>ReplaceAllStringFunc\<close> with a replacement function that may panic: the first panic
  is the result.
\<close>

datatype panic = SliceOutOfRange | IndexOutOfRange

fun replaceWith :: "(string \<Rightarrow> panic + string) \<Rightarrow> (bool \<times> string) list \<Rightarrow> panic + string" where
  "replaceWith f [] = Inr []"
| "replaceWith f ((m, p) # segs) =
     (case (if m then f p else Inr p) of
        Inl e \<Rightarrow> Inl e
      | Inr q \<Rightarrow> (case replaceWith f segs of Inl e \<Rightarrow> Inl e | Inr r \<Rightarrow> Inr (q @ r)))"

definition ReplaceAllStringFunc :: "regex \<Rightarrow> string \<Rightarrow> (string \<Rightarrow> panic + string) \<Rightarrow> panic + string" where
  "ReplaceAllStringFunc re src f = replaceWith f (replaceSegs re src 0 0)"

text \<open>
  \<open>FindStringSubmatch\<close>: the leftmost match and the text of each capture group (empty
  for a group that took no part), or the empty list when nothing matches.
\<close>

fun numGroups :: "regex \<Rightarrow> nat" where
  "numGroups (Seq a b) = max (numGroups a) (numGroups b)"
| "numGroups (Alt a b) = max (numGroups a) (numGroups b)"
| "numGroups (Star a) = numGroups a"
| "numGroups (Grp k a) = max k (numGroups a)"
| "numGroups _ = 0"

definition FindStringSubmatch :: "regex \<Rightarrow> string \<Rightarrow> string list" where
  "FindStringSubmatch re w =
     (case findAt re w 0 w of
        None \<Rightarrow> []
      | Some (a0, a1, cs) \<Rightarrow>
          take (a1 - a0) (drop a0 w) #
          map (\<lambda>k. case map_of cs k of
                      None \<Rightarrow> []
                    | Some (a, b) \<Rightarrow> take (b - a) (drop a w))
              [1..<Suc (numGroups re)])"

section \<open>The pattern tables\<close>

text \<open>
  \<open>numericalPatterns\<close>: six kinds of numeric token (integer, signed or decimal number,
  hexadecimal, scientific notation, number with unit, \<open>prefix_number\<close> identifier), each
  in five contexts, in the order of the source: between white space, in parentheses, in
  brackets, after white space at the end of the text, before white space at its start.
\<close>

definition ws :: regex where "ws = Cls False [(9, 10), (12, 13), (32, 32)]"
definition dg :: regex where "dg = Cls False [rng CHR ''0'' CHR ''9'']"
definition alpha :: regex where "alpha = Cls False [rng CHR ''a'' CHR ''z'', rng CHR ''A'' CHR ''Z'']"
definition hexdg :: regex where
  "hexdg = Cls False [rng CHR ''0'' CHR ''9'', rng CHR ''a'' CHR ''f'', rng CHR ''A'' CHR ''F'']"
definition alnum :: regex where
  "alnum = Cls False [rng CHR ''a'' CHR ''z'', rng CHR ''A'' CHR ''Z'', rng CHR ''0'' CHR ''9'']"

definition num_int :: regex where "num_int = plus dg"
definition num_signed :: regex where
  "num_signed = seqs [opt (chr CHR ''-''), plus dg, opt (Grp 1 (seqs [chr CHR ''.'', plus dg]))]"
definition num_hex :: regex where
  "num_hex = seqs [chr CHR ''0'', Cls False [one CHR ''x'', one CHR ''X''], plus hexdg]"
definition num_sci :: regex where
  "num_sci = seqs [num_signed, Cls False [one CHR ''e'', one CHR ''E''],
                   opt (Cls False [one CHR ''+'', one CHR ''-'']), plus dg]"
definition num_unit :: regex where "num_unit = seqs [num_signed, plus alpha]"
definition num_ident :: regex where
  "num_ident = seqs [plus alpha, chr CHR ''_'', opt (chr CHR ''-''), plus dg]"

definition numForms :: "regex \<Rightarrow> regex list" where
  "numForms x =
     [seqs [ws, x, ws],
      seqs [chr CHR ''('', x, chr CHR '')''],
      seqs [chr CHR ''['', x, chr CHR '']''],
      seqs [ws, x, Eol],
      seqs [Bol, x, ws]]"

definition numericalPatterns :: "regex list" where
  "numericalPatterns =
     concat (map numForms [num_int, num_signed, num_hex, num_sci, num_unit, num_ident])"

text \<open>\<open>trivialVarPatterns\<close>, in the order of the source.\<close>

definition frac :: regex where "frac = opt (Grp 1 (seqs [chr CHR ''.'', plus dg]))"
definition hms :: regex where
  "hms = seqs [rep dg 2, chr CHR '':'', rep dg 2, chr CHR '':'', rep dg 2]"
definition month3 :: regex where
  "month3 = alts (map lit [''Jan'', ''Feb'', ''Mar'', ''Apr'', ''May'', ''Jun'', ''Jul'', ''Aug'',
                           ''Sep'', ''Oct'', ''Nov'', ''Dec''])"
definition dashOrSpace :: regex where "dashOrSpace = Cls False [one CHR ''-'', one CHR '' '']"

definition trivialVarPatterns :: "regex list" where
  "trivialVarPatterns =
    [ \<comment> \<open>directory paths\<close>
      repMin (Grp 1 (seqs [chr CHR ''/'',
        plus (Cls False [rng CHR ''a'' CHR ''z'', rng CHR ''A'' CHR ''Z'', rng CHR ''0'' CHR ''9'',
                         one CHR ''.'', one CHR ''_'', one CHR ''/'', one CHR ''-''])])) 3,
      repMin (Grp 1 (seqs [alpha, chr CHR '':'', chr (CHR 0x5C),
        plus (Cls False [rng CHR ''0'' CHR ''9'', rng CHR ''A'' CHR ''Z'', one CHR ''_'',
                         rng CHR ''a'' CHR ''z'', (9, 10), (12, 13), (32, 32), one (CHR 0x5C),
                         one CHR ''.'', one CHR ''/'', one CHR ''-''])])) 2,
      \<comment> \<open>IPv4 with optional leading slash and port\<close>
      seqs [opt (chr CHR ''/''), rep (seqs [repRange dg 1 3, chr CHR ''.'']) 3, repRange dg 1 3,
            opt (seqs [chr CHR '':'', repRange dg 1 5])],
      \<comment> \<open>IPv6\<close>
      seqs [WordB, rep (Grp 1 (seqs [repRange hexdg 1 4, chr CHR '':''])) 7, repRange hexdg 1 4,
            WordB],
      \<comment> \<open>hex values\<close>
      seqs [lit ''0x'', repMin hexdg 4],
      \<comment> \<open>MAC addresses\<close>
      seqs [rep (Grp 1 (seqs [rep hexdg 2, Cls False [one CHR '':'', one CHR ''-'']])) 5,
            rep hexdg 2],
      \<comment> \<open>UUIDs\<close>
      seqs [rep hexdg 8, chr CHR ''-'', rep hexdg 4, chr CHR ''-'', rep hexdg 4, chr CHR ''-'',
            rep hexdg 4, chr CHR ''-'', rep hexdg 12],
      \<comment> \<open>hashes\<close>
      seqs [WordB, repRange hexdg 32 64, WordB],
      \<comment> \<open>ISO 8601 timestamps\<close>
      seqs [rep dg 4, chr CHR ''-'', rep dg 2, chr CHR ''-'', rep dg 2, chr CHR ''T'', hms, frac,
            opt (Grp 2 (Alt (seqs [Cls False [one CHR ''+'', one CHR ''-''], rep dg 2,
                                   chr CHR '':'', rep dg 2])
                            (chr CHR ''Z'')))],
      \<comment> \<open>date and time separated by white space\<close>
      seqs [rep dg 4, chr CHR ''-'', rep dg 2, chr CHR ''-'', rep dg 2, plus ws, hms, frac],
      seqs [repRange dg 1 2, chr CHR ''/'', repRange dg 1 2, chr CHR ''/'', rep dg 4, plus ws,
            hms, frac],
      \<comment> \<open>dates with a month name\<close>
      seqs [repRange dg 1 2, dashOrSpace, Grp 1 month3, dashOrSpace, rep dg 4, plus ws, hms,
            opt (Grp 2 (seqs [chr CHR ''.'', plus dg]))],
      seqs [Grp 1 month3, plus ws, repRange dg 1 2, plus ws, rep dg 4, plus ws, hms,
            opt (Grp 2 (seqs [chr CHR ''.'', plus dg]))],
      seqs [repRange dg 1 2, plus ws, Grp 1 month3, plus ws, rep dg 4, plus ws, hms,
            opt (Grp 2 (seqs [chr CHR ''.'', plus dg]))],
      \<comment> \<open>syslog timestamps\<close>
      seqs [Grp 1 month3, plus ws, repRange dg 1 2, plus ws, hms],
      \<comment> \<open>year/month/day and day.month.year with time\<close>
      seqs [rep dg 4, chr CHR ''/'', rep dg 2, chr CHR ''/'', rep dg 2, plus ws, hms, frac],
      seqs [rep dg 2, chr CHR ''.'', rep dg 2, chr CHR ''.'', rep dg 4, plus ws, hms, frac],
      \<comment> \<open>dates without time\<close>
      seqs [rep dg 4, chr CHR ''-'', rep dg 2, chr CHR ''-'', rep dg 2],
      seqs [repRange dg 1 2, chr CHR ''/'', repRange dg 1 2, chr CHR ''/'', rep dg 4],
      seqs [rep dg 2, chr CHR ''.'', rep dg 2, chr CHR ''.'', rep dg 4],
      \<comment> \<open>compact formats\<close>
      seqs [WordB, rep dg 8, chr CHR ''T'', rep dg 6, WordB],
      seqs [WordB, rep dg 14, WordB],
      \<comment> \<open>Unix timestamps\<close>
      seqs [WordB, chr CHR ''1'', rep dg 9, WordB],
      seqs [WordB, chr CHR ''1'', rep dg 12, WordB],
      \<comment> \<open>month names\<close>
      seqs [WordB, Grp 1 (alts (map lit [''Jan'', ''Feb'', ''Mar'', ''Apr'', ''May'', ''Jun'',
              ''Jul'', ''Aug'', ''Sep'', ''Oct'', ''Nov'', ''Dec'', ''January'', ''February'',
              ''March'', ''April'', ''May'', ''June'', ''July'', ''August'', ''September'',
              ''October'', ''November'', ''December''])), WordB],
      \<comment> \<open>days of the week\<close>
      seqs [WordB, Grp 1 (alts (map lit [''Mon'', ''Tue'', ''Wed'', ''Thu'', ''Fri'', ''Sat'',
              ''Sun'', ''Monday'', ''Tuesday'', ''Wednesday'', ''Thursday'', ''Friday'',
              ''Saturday'', ''Sunday''])), WordB],
      \<comment> \<open>time of day\<close>
      seqs [WordB, repRange dg 1 2, chr CHR '':'', rep dg 2, chr CHR '':'', rep dg 2,
            opt (Grp 1 (seqs [chr CHR ''.'', repRange dg 1 6])), WordB],
      \<comment> \<open>URLs\<close>
      seqs [lit ''http'', opt (chr CHR ''s''), lit ''://'',
            plus (Cls True [(9, 10), (12, 13), (32, 32)])],
      seqs [lit ''ftp://'', plus (Cls True [(9, 10), (12, 13), (32, 32)])],
      \<comment> \<open>e-mail addresses\<close>
      seqs [plus (Cls False [rng CHR ''a'' CHR ''z'', rng CHR ''A'' CHR ''Z'',
                             rng CHR ''0'' CHR ''9'', one CHR ''.'', one CHR ''_'', one CHR ''%'',
                             one CHR ''+'', one CHR ''-'']),
            chr CHR ''@'',
            plus (Cls False [rng CHR ''a'' CHR ''z'', rng CHR ''A'' CHR ''Z'',
                             rng CHR ''0'' CHR ''9'', one CHR ''.'', one CHR ''-'']),
            chr CHR ''.'', repMin alpha 2],
      \<comment> \<open>words in parentheses\<close>
      seqs [chr CHR ''('', alpha,
            Star (Cls False [rng CHR ''a'' CHR ''z'', rng CHR ''A'' CHR ''Z'',
                             rng CHR ''0'' CHR ''9'', one CHR ''_'', one CHR ''-'']),
            chr CHR '')''],
      \<comment> \<open>very long alphanumeric strings\<close>
      seqs [WordB, repMin alnum 32, WordB] ]"

section \<open>Data model\<close>

text \<open>
  A \<open>float64\<close> of the configuration and of the similarity is a rational number: the
  arithmetic is exact, rounding, infinities and NaN are left out. Counts and lengths are
  natural numbers, the integers of the configuration are \<open>int\<close>.
\<close>

datatype SortingStrategy = SortNone | SortByLength | SortLexical | SortByDynTokens

datatype FreqThresholdStrategy = FreqMin | FreqMedian | FreqPercentile | FreqAll

text \<open>
  The field \<open>FreqPercentile\<close> of the source is \<open>FreqPercentileVal\<close> here (the strategy
  constant has the same name); \<open>CustomRegexes\<close> is \<open>None\<close> for a nil slice.
\<close>

record Config =
  MinSimilarity :: rat
  SortingStrategy :: SortingStrategy
  CustomRegexes :: "string list option"
  HeaderRegex :: string
  MinGroupSize :: int
  MaxPlaceholderRatio :: rat
  MinTemplateTokens :: int
  FreqThresholdStrategy :: FreqThresholdStrategy
  FreqPercentileVal :: rat
  StrictAlphabeticalMatching :: bool
  ApplyFreqAnalysisToSmallGroups :: bool

definition bsl :: char where "bsl = CHR 0x5C"

definition DefaultHeaderRegex :: string where
  "DefaultHeaderRegex =
     ''^(?:'' @ [bsl] @ ''d{4}-'' @ [bsl] @ ''d{2}-'' @ [bsl] @ ''d{2}[T'' @ [bsl] @ ''s]''
     @ [bsl] @ ''d{2}:'' @ [bsl] @ ''d{2}:'' @ [bsl] @ ''d{2}(?:'' @ [bsl] @ ''.'' @ [bsl]
     @ ''d+)?(?:[+-]'' @ [bsl] @ ''d{2}:'' @ [bsl] @ ''d{2}|Z)?[,:]'' @ [bsl] @ ''s*)?(.+)$''"

definition DefaultConfig :: Config where
  "DefaultConfig =
     \<lparr>MinSimilarity = 1, SortingStrategy = SortNone, CustomRegexes = Some [],
      HeaderRegex = DefaultHeaderRegex, MinGroupSize = 1, MaxPlaceholderRatio = 9 / 10,
      MinTemplateTokens = 1, FreqThresholdStrategy = FreqMin, FreqPercentileVal = 1 / 2,
      StrictAlphabeticalMatching = False, ApplyFreqAnalysisToSmallGroups = True\<rparr>"

record LogEvent =
  Raw :: string
  Content :: string
  Tokens :: "string list"
  Template :: string

text \<open>
  Events are shared by pointer between the batch and the patterns: an event lives in a
  store (a list of events) and is named by its address there. \<open>Frequency\<close> is the map
  from token to count, as an association list with one entry per token.
\<close>

type_synonym addr = nat
type_synonym store = "LogEvent list"

record Pattern =
  ID :: int
  Events :: "addr list"
  Template :: string
  Frequency :: "(string \<times> nat) list"

record AWSOMLP =
  patterns :: "Pattern list"
  headerRegex :: "regex option"
  customRegexes :: "regex list"
  config :: Config

definition NewAWSOMLP :: AWSOMLP where
  "NewAWSOMLP = \<lparr>patterns = [], headerRegex = None, customRegexes = [], config = DefaultConfig\<rparr>"

section \<open>Configuration\<close>

datatype config_error =
    BadMinSimilarity rat
  | BadMinGroupSize int
  | BadMaxPlaceholderRatio rat
  | BadMinTemplateTokens int
  | BadFreqPercentile rat
  | InvalidHeaderRegex
  | InvalidCustomRegex string

text \<open>
  The first part of \<open>WithConfig\<close>: zero or empty fields take the default value.
\<close>

definition fillDefaults :: "Config \<Rightarrow> Config" where
  "fillDefaults c =
     (let c = (if MinSimilarity c = 0 then c\<lparr>MinSimilarity := MinSimilarity DefaultConfig\<rparr> else c);
          c = (if HeaderRegex c = [] then c\<lparr>HeaderRegex := HeaderRegex DefaultConfig\<rparr> else c);
          c = (if CustomRegexes c = None then c\<lparr>CustomRegexes := CustomRegexes DefaultConfig\<rparr> else c);
          c = (if MinGroupSize c = 0 then c\<lparr>MinGroupSize := MinGroupSize DefaultConfig\<rparr> else c);
          c = (if MaxPlaceholderRatio c = 0
               then c\<lparr>MaxPlaceholderRatio := MaxPlaceholderRatio DefaultConfig\<rparr> else c);
          c = (if MinTemplateTokens c = 0
               then c\<lparr>MinTemplateTokens := MinTemplateTokens DefaultConfig\<rparr> else c);
          c = (if FreqPercentileVal c = 0
               then c\<lparr>FreqPercentileVal := FreqPercentileVal DefaultConfig\<rparr> else c)
      in c)"

text \<open>The numeric checks of \<open>WithConfig\<close>, in the order of the source.\<close>

definition validateConfig :: "Config \<Rightarrow> config_error option" where
  "validateConfig c =
     (if MinSimilarity c < 0 \<or> 1 < MinSimilarity c then Some (BadMinSimilarity (MinSimilarity c))
      else if MinGroupSize c < 1 then Some (BadMinGroupSize (MinGroupSize c))
      else if MaxPlaceholderRatio c < 0 \<or> 1 < MaxPlaceholderRatio c
        then Some (BadMaxPlaceholderRatio (MaxPlaceholderRatio c))
      else if MinTemplateTokens c < 0 then Some (BadMinTemplateTokens (MinTemplateTokens c))
      else if FreqPercentileVal c < 0 \<or> 1 < FreqPercentileVal c
        then Some (BadFreqPercentile (FreqPercentileVal c))
      else None)"

text \<open>
  The loop over \<open>config.CustomRegexes\<close>: each expression is compiled and appended to
  \<open>lp.customRegexes\<close>; the first that does not compile ends the loop with an error, the
  engine keeping what was appended before.
\<close>

fun compileCustom :: "(string \<Rightarrow> regex option) \<Rightarrow> string list \<Rightarrow> AWSOMLP \<Rightarrow> config_error option \<times> AWSOMLP" where
  "compileCustom compile [] lp = (None, lp)"
| "compileCustom compile (pat # pats) lp =
     (case compile pat of
        None \<Rightarrow> (Some (InvalidCustomRegex pat), lp)
      | Some re \<Rightarrow> compileCustom compile pats (lp\<lparr>customRegexes := customRegexes lp @ [re]\<rparr>))"

text \<open>
  \<open>WithConfig\<close>. \<open>regexp.Compile\<close> is the parameter \<open>compile\<close>; the result is the error
  (\<open>None\<close> for nil) and the engine after the call.
\<close>

definition WithConfig :: "(string \<Rightarrow> regex option) \<Rightarrow> Config \<Rightarrow> AWSOMLP \<Rightarrow> config_error option \<times> AWSOMLP" where
  "WithConfig compile cfg lp =
     (let c = fillDefaults cfg in
      case validateConfig c of
        Some e \<Rightarrow> (Some e, lp)
      | None \<Rightarrow>
          (case compile (HeaderRegex c) of
             None \<Rightarrow> (Some InvalidHeaderRegex, lp)
           | Some re \<Rightarrow>
               (case compileCustom compile (case CustomRegexes c of None \<Rightarrow> [] | Some ps \<Rightarrow> ps)
                       (lp\<lparr>headerRegex := Some re, customRegexes := []\<rparr>) of
                  (Some e, lp') \<Rightarrow> (Some e, lp')
                | (None, lp') \<Rightarrow> (None, lp'\<lparr>config := c\<rparr>))))"

section \<open>Preprocessing\<close>

definition removeHeader :: "AWSOMLP \<Rightarrow> string \<Rightarrow> string" where
  "removeHeader lp logLine =
     (case headerRegex lp of
        None \<Rightarrow> logLine
      | Some re \<Rightarrow>
          (case find (\<lambda>m. m \<noteq> [] \<and> m \<noteq> logLine) (rev (FindStringSubmatch re logLine)) of
             Some m \<Rightarrow> m
           | None \<Rightarrow> logLine))"

definition replaceTrivialVariables :: "AWSOMLP \<Rightarrow> string \<Rightarrow> string" where
  "replaceTrivialVariables lp content =
     foldl (\<lambda>c re. ReplaceAllString re c ''<*>'')
       (foldl (\<lambda>c re. ReplaceAllString re c ''<*>'') content trivialVarPatterns)
       (customRegexes lp)"

definition Preprocess :: "AWSOMLP \<Rightarrow> string \<Rightarrow> LogEvent" where
  "Preprocess lp logLine =
     (let content = replaceTrivialVariables lp (removeHeader lp logLine) in
      \<lparr>Raw = logLine, Content = content, Tokens = Fields content, Template = []\<rparr>)"

section \<open>Similarity\<close>

text \<open>
  \<open>unicode.IsLetter\<close> is the parameter \<open>L\<close> of everything that looks at letters.
\<close>

definition isAlphabeticalToken :: "(rune \<Rightarrow> bool) \<Rightarrow> string \<Rightarrow> bool" where
  "isAlphabeticalToken L token =
     (if token = ''<*>'' then False
      else if list_ex (\<lambda>r. \<not> L r) (runes token) then False
      else 0 < length token)"

definition countAlphabeticalLetters :: "(rune \<Rightarrow> bool) \<Rightarrow> LogEvent \<Rightarrow> nat" where
  "countAlphabeticalLetters L event =
     foldl (\<lambda>count token.
              if isAlphabeticalToken L token then count + length (filter L (runes token))
              else count)
       0 (Tokens event)"

definition getAlphabeticalTokens :: "(rune \<Rightarrow> bool) \<Rightarrow> LogEvent \<Rightarrow> string list" where
  "getAlphabeticalTokens L event = filter (isAlphabeticalToken L) (Tokens event)"

fun tokensEqualFrom :: "string list \<Rightarrow> string list \<Rightarrow> bool" where
  "tokensEqualFrom (a # as) (b # bs) = (if a \<noteq> b then False else tokensEqualFrom as bs)"
| "tokensEqualFrom _ _ = True"

definition alphabeticalTokensMatch :: "string list \<Rightarrow> string list \<Rightarrow> bool" where
  "alphabeticalTokensMatch tokens1 tokens2 =
     (if length tokens1 \<noteq> length tokens2 then False else tokensEqualFrom tokens1 tokens2)"

definition calculateSimilarity :: "(rune \<Rightarrow> bool) \<Rightarrow> AWSOMLP \<Rightarrow> LogEvent \<Rightarrow> LogEvent \<Rightarrow> rat" where
  "calculateSimilarity L lp event1 event2 =
     (let count1 = countAlphabeticalLetters L event1;
          count2 = countAlphabeticalLetters L event2 in
      if count1 = 0 \<or> count2 = 0 then 0
      else if StrictAlphabeticalMatching (config lp) \<and>
              \<not> alphabeticalTokensMatch (getAlphabeticalTokens L event1)
                                         (getAlphabeticalTokens L event2)
        then 0
      else
        let minCount = (if count2 < count1 then count2 else count1);
            maxCount = (if count2 < count1 then count1 else count2)
        in of_nat minCount / of_nat maxCount)"

section \<open>Pattern recognition\<close>

text \<open>
  The inner loop of \<open>patternRecognition\<close> over \<open>lp.patterns\<close>: \<open>None\<close> when no pattern
  took the event (\<open>matched\<close> stays false), else the patterns with the event appended to
  the one that matched.
\<close>

fun tryPatterns :: "(rune \<Rightarrow> bool) \<Rightarrow> AWSOMLP \<Rightarrow> store \<Rightarrow> addr \<Rightarrow> Pattern list \<Rightarrow> Pattern list option" where
  "tryPatterns L lp h e [] = None"
| "tryPatterns L lp h e (p # ps) =
     (if length (Events p) = 0 then map_option ((#) p) (tryPatterns L lp h e ps)
      else if MinSimilarity (config lp) \<le> calculateSimilarity L lp (h ! e) (h ! (Events p ! 0))
        then Some (p\<lparr>Events := Events p @ [e]\<rparr> # ps)
      else map_option ((#) p) (tryPatterns L lp h e ps))"

definition newPattern :: "AWSOMLP \<Rightarrow> addr \<Rightarrow> Pattern" where
  "newPattern lp e =
     \<lparr>ID = int (length (patterns lp)), Events = [e], Template = [], Frequency = []\<rparr>"

definition assignEvent :: "(rune \<Rightarrow> bool) \<Rightarrow> store \<Rightarrow> AWSOMLP \<Rightarrow> addr \<Rightarrow> AWSOMLP" where
  "assignEvent L h lp e =
     (case tryPatterns L lp h e (patterns lp) of
        Some ps \<Rightarrow> lp\<lparr>patterns := ps\<rparr>
      | None \<Rightarrow> lp\<lparr>patterns := patterns lp @ [newPattern lp e]\<rparr>)"

fun patternRecognition :: "(rune \<Rightarrow> bool) \<Rightarrow> store \<Rightarrow> AWSOMLP \<Rightarrow> addr list \<Rightarrow> AWSOMLP" where
  "patternRecognition L h lp [] = lp"
| "patternRecognition L h lp (e # es) = patternRecognition L h (assignEvent L h lp e) es"

section \<open>Sorting the events of a pattern\<close>

text \<open>The order \<open><\<close> of Go on strings: lexicographic on the bytes.\<close>

fun strLess :: "string \<Rightarrow> string \<Rightarrow> bool" where
  "strLess [] [] = False"
| "strLess [] (y # ys) = True"
| "strLess (x # xs) [] = False"
| "strLess (x # xs) (y # ys) =
     (if (of_char x :: nat) < of_char y then True
      else if (of_char y :: nat) < of_char x then False
      else strLess xs ys)"

text \<open>
  \<open>sort.Slice\<close> and \<open>sort.Strings\<close> as insertion sort (what the library runs on a slice
  of at most 12 elements): each element in turn moves left while it is less than its
  left neighbour. \<open>insertBack\<close> works on the sorted prefix in reverse.
\<close>

fun insertBack :: "('a \<Rightarrow> 'a \<Rightarrow> bool) \<Rightarrow> 'a \<Rightarrow> 'a list \<Rightarrow> 'a list" where
  "insertBack lt x [] = [x]"
| "insertBack lt x (y # ys) = (if lt x y then y # insertBack lt x ys else x # y # ys)"

definition sortSlice :: "('a \<Rightarrow> 'a \<Rightarrow> bool) \<Rightarrow> 'a list \<Rightarrow> 'a list" where
  "sortSlice lt xs = rev (foldl (\<lambda>acc x. insertBack lt x acc) [] xs)"

definition sortByLength :: "store \<Rightarrow> addr list \<Rightarrow> addr list" where
  "sortByLength h events =
     sortSlice (\<lambda>i j. if length (Tokens (h ! i)) \<noteq> length (Tokens (h ! j))
                       then length (Tokens (h ! i)) < length (Tokens (h ! j))
                       else strLess (Content (h ! i)) (Content (h ! j))) events"

definition sortLexically :: "store \<Rightarrow> addr list \<Rightarrow> addr list" where
  "sortLexically h events =
     sortSlice (\<lambda>i j. if Content (h ! i) \<noteq> Content (h ! j)
                       then strLess (Content (h ! i)) (Content (h ! j))
                       else strLess (Raw (h ! i)) (Raw (h ! j))) events"

definition countDynamicTokens :: "(rune \<Rightarrow> bool) \<Rightarrow> LogEvent \<Rightarrow> nat" where
  "countDynamicTokens L event = length (filter (\<lambda>token. \<not> isAlphabeticalToken L token) (Tokens event))"

definition sortByDynamicTokenCount :: "(rune \<Rightarrow> bool) \<Rightarrow> store \<Rightarrow> addr list \<Rightarrow> addr list" where
  "sortByDynamicTokenCount L h events =
     sortSlice (\<lambda>i j. if countDynamicTokens L (h ! i) \<noteq> countDynamicTokens L (h ! j)
                       then countDynamicTokens L (h ! i) < countDynamicTokens L (h ! j)
                       else strLess (Content (h ! i)) (Content (h ! j))) events"

definition sortEventsInPattern :: "(rune \<Rightarrow> bool) \<Rightarrow> AWSOMLP \<Rightarrow> store \<Rightarrow> addr list \<Rightarrow> addr list" where
  "sortEventsInPattern L lp h events =
     (case SortingStrategy (config lp) of
        SortByLength \<Rightarrow> sortByLength h events
      | SortLexical \<Rightarrow> sortLexically h events
      | SortByDynTokens \<Rightarrow> sortByDynamicTokenCount L h events
      | SortNone \<Rightarrow> events)"

section \<open>Frequency analysis\<close>

text \<open>\<open>int(x)\<close> of a \<open>float64\<close>: truncation towards zero.\<close>

definition truncToInt :: "rat \<Rightarrow> int" where
  "truncToInt x = (if x < 0 then - \<lfloor>- x\<rfloor> else \<lfloor>x\<rfloor>)"

text \<open>The counts of the frequency map, collected and sorted by \<open>sort.Ints\<close>.\<close>

definition sortedCounts :: "(string \<times> nat) list \<Rightarrow> nat list" where
  "sortedCounts frequency = sort (map snd frequency)"

definition chooseFreqThreshold :: "AWSOMLP \<Rightarrow> (string \<times> nat) list \<Rightarrow> nat \<Rightarrow> panic + nat" where
  "chooseFreqThreshold lp frequency groupSize =
     (case FreqThresholdStrategy (config lp) of
        FreqMin \<Rightarrow>
          if length frequency = 0 then Inr 1
          else Inr (foldl (\<lambda>minFreq freq. if freq < minFreq then freq else minFreq)
                      groupSize (map snd frequency))
      | FreqMedian \<Rightarrow>
          if length frequency = 0 then Inr 1
          else
            let frequencies = sortedCounts frequency;
                mid = length frequencies div 2 in
            if length frequencies mod 2 = 0
            then Inr ((frequencies ! (mid - 1) + frequencies ! mid) div 2)
            else Inr (frequencies ! mid)
      | FreqPercentile \<Rightarrow>
          if length frequency = 0 then Inr 1
          else
            let frequencies = sortedCounts frequency;
                idx = truncToInt (of_nat (length frequencies - 1) * FreqPercentileVal (config lp)) in
            if idx < 0 \<or> int (length frequencies) \<le> idx then Inl IndexOutOfRange
            else Inr (frequencies ! nat idx)
      | FreqAll \<Rightarrow> Inr groupSize)"

text \<open>\<open>pattern.Frequency[token]++\<close> and the read \<open>frequency[token]\<close> (0 for a missing key).\<close>

fun bump :: "string \<Rightarrow> (string \<times> nat) list \<Rightarrow> (string \<times> nat) list" where
  "bump k [] = [(k, 1)]"
| "bump k ((k', n) # m) = (if k = k' then (k', n + 1) # m else (k', n) # bump k m)"

definition freqOf :: "(string \<times> nat) list \<Rightarrow> string \<Rightarrow> nat" where
  "freqOf m k = (case map_of m k of None \<Rightarrow> 0 | Some n \<Rightarrow> n)"

definition countFrequency :: "store \<Rightarrow> addr list \<Rightarrow> (string \<times> nat) list" where
  "countFrequency h events =
     foldl (\<lambda>m a. foldl (\<lambda>m token. bump token m) m (Tokens (h ! a))) [] events"

definition generateTemplate :: "LogEvent \<Rightarrow> (string \<times> nat) list \<Rightarrow> nat \<Rightarrow> string" where
  "generateTemplate event frequency freqThreshold =
     Join (map (\<lambda>token. if token = ''<*>'' then token
                         else if freqThreshold \<le> freqOf frequency token then token
                         else ''<*>'')
               (Tokens event))"

definition placeholderCount :: "string list \<Rightarrow> nat" where
  "placeholderCount tokens = length (filter (\<lambda>token. token = ''<*>'') tokens)"

definition hasExcessivePlaceholders :: "AWSOMLP \<Rightarrow> string \<Rightarrow> bool" where
  "hasExcessivePlaceholders lp template =
     (let tokens = Fields template in
      if length tokens = 0 then False
      else MaxPlaceholderRatio (config lp)
             < of_nat (placeholderCount tokens) / of_nat (length tokens))"

text \<open>\<open>event.Template = pattern.Template\<close> for each event of a pattern.\<close>

definition setTemplate :: "store \<Rightarrow> string \<Rightarrow> addr list \<Rightarrow> store" where
  "setTemplate h t events = foldl (\<lambda>h a. h[a := (h ! a)\<lparr>LogEvent.Template := t\<rparr>]) h events"

text \<open>The body of the loop of \<open>frequencyAnalysis\<close>, for one pattern.\<close>

definition analysePattern :: "(rune \<Rightarrow> bool) \<Rightarrow> AWSOMLP \<Rightarrow> store \<Rightarrow> Pattern \<Rightarrow> panic + (store \<times> Pattern)" where
  "analysePattern L lp h p =
     (if length (Events p) = 0 then Inr (h, p)
      else
        let events = (if SortingStrategy (config lp) \<noteq> SortNone
                      then sortEventsInPattern L lp h (Events p) else Events p) in
        if int (length (Events p)) < MinGroupSize (config lp)
           \<and> \<not> ApplyFreqAnalysisToSmallGroups (config lp)
        then
          let template = Content (h ! (events ! 0)) in
          Inr (setTemplate h template events,
               p\<lparr>Events := events, Pattern.Template := template\<rparr>)
        else
          let frequency = countFrequency h events in
          case chooseFreqThreshold lp frequency (length events) of
            Inl e \<Rightarrow> Inl e
          | Inr freqThreshold \<Rightarrow>
              let candidate = generateTemplate (h ! (events ! 0)) frequency freqThreshold;
                  template = (if hasExcessivePlaceholders lp candidate
                              then Content (h ! (events ! 0)) else candidate) in
              Inr (setTemplate h template events,
                   p\<lparr>Events := events, Pattern.Template := template, Frequency := frequency\<rparr>))"

fun analysePatterns :: "(rune \<Rightarrow> bool) \<Rightarrow> AWSOMLP \<Rightarrow> store \<Rightarrow> Pattern list \<Rightarrow> panic + (store \<times> Pattern list)" where
  "analysePatterns L lp h [] = Inr (h, [])"
| "analysePatterns L lp h (p # ps) =
     (case analysePattern L lp h p of
        Inl e \<Rightarrow> Inl e
      | Inr (h', p') \<Rightarrow>
          (case analysePatterns L lp h' ps of
             Inl e \<Rightarrow> Inl e
           | Inr (h'', ps') \<Rightarrow> Inr (h'', p' # ps')))"

definition frequencyAnalysis :: "(rune \<Rightarrow> bool) \<Rightarrow> AWSOMLP \<Rightarrow> store \<Rightarrow> panic + (store \<times> AWSOMLP)" where
  "frequencyAnalysis L lp h =
     (case analysePatterns L lp h (patterns lp) of
        Inl e \<Rightarrow> Inl e
      | Inr (h', ps) \<Rightarrow> Inr (h', lp\<lparr>patterns := ps\<rparr>))"

section \<open>Numeric cleanup\<close>

text \<open>
  The replacement function of \<open>replaceRemainingNumericalVariables\<close>. The slice
  \<open>content[:len(content)-1]\<close> panics when \<open>content\<close> is empty, which is the case for a
  match that is a single space.
\<close>

definition bracketed :: "string \<Rightarrow> string \<Rightarrow> string \<Rightarrow> string" where
  "bracketed prefix suffix content =
     (if HasPrefix content ''('' \<and> HasSuffix content '')'' then ''(<*>)''
      else if HasPrefix content ''['' \<and> HasSuffix content '']'' then ''[<*>]''
      else prefix @ ''<*>'' @ suffix)"

definition replaceNumeric :: "string \<Rightarrow> panic + string" where
  "replaceNumeric match =
     (let prefix = (if HasPrefix match '' '' then '' '' else []);
          content = (if HasPrefix match '' '' then drop 1 match else match) in
      if HasSuffix match '' '' then
        (if length content = 0 then Inl SliceOutOfRange
         else Inr (bracketed prefix '' '' (take (length content - 1) content)))
      else Inr (bracketed prefix [] content))"

fun cleanWith :: "regex list \<Rightarrow> string \<Rightarrow> panic + string" where
  "cleanWith [] template = Inr template"
| "cleanWith (re # res) template =
     (case ReplaceAllStringFunc re template replaceNumeric of
        Inl e \<Rightarrow> Inl e
      | Inr template' \<Rightarrow> cleanWith res template')"

text \<open>The cleanup pass on one template: every numerical pattern in turn.\<close>

definition cleanTemplate :: "string \<Rightarrow> panic + string" where
  "cleanTemplate template = cleanWith numericalPatterns template"

fun cleanPatterns :: "store \<Rightarrow> Pattern list \<Rightarrow> panic + (store \<times> Pattern list)" where
  "cleanPatterns h [] = Inr (h, [])"
| "cleanPatterns h (p # ps) =
     (case cleanTemplate (Pattern.Template p) of
        Inl e \<Rightarrow> Inl e
      | Inr t \<Rightarrow>
          (case cleanPatterns (setTemplate h t (Events p)) ps of
             Inl e \<Rightarrow> Inl e
           | Inr (h', ps') \<Rightarrow> Inr (h', p\<lparr>Pattern.Template := t\<rparr> # ps')))"

definition replaceRemainingNumericalVariables :: "AWSOMLP \<Rightarrow> store \<Rightarrow> panic + (store \<times> AWSOMLP)" where
  "replaceRemainingNumericalVariables lp h =
     (case cleanPatterns h (patterns lp) of
        Inl e \<Rightarrow> Inl e
      | Inr (h', ps) \<Rightarrow> Inr (h', lp\<lparr>patterns := ps\<rparr>))"

section \<open>Parse and the template registry\<close>

text \<open>
  Step 1 of \<open>Parse\<close> for one line: the line is trimmed, dropped when empty, and cut to
  its first \<open>maxLineLength\<close> bytes.
\<close>

definition maxLineLength :: nat where
  "maxLineLength = 10000"

definition prepareLine :: "string \<Rightarrow> string option" where
  "prepareLine line =
     (let line = TrimSpace line in
      if line \<noteq> [] then Some (if maxLineLength < length line then take maxLineLength line else line)
      else None)"

text \<open>The fallback chain of the last loop of \<open>Parse\<close>.\<close>

definition resultTemplate :: "LogEvent \<Rightarrow> string" where
  "resultTemplate event =
     (let template = TrimSpace (LogEvent.Template event) in
      if template = [] then
        (let template = TrimSpace (Content event) in
         if template = [] then TrimSpace (Raw event) else template)
      else template)"

definition collectResults :: "store \<Rightarrow> addr list \<Rightarrow> (string \<rightharpoonup> string)" where
  "collectResults h events =
     foldl (\<lambda>results a. results(Raw (h ! a) \<mapsto> resultTemplate (h ! a))) Map.empty events"

text \<open>
  \<open>Parse\<close>: the argument is \<open>None\<close> for a nil slice. The new events are stored behind
  the events of earlier calls; the result is the mapping, the store and the engine, or
  the panic that ended the call.
\<close>

definition Parse :: "(rune \<Rightarrow> bool) \<Rightarrow> AWSOMLP \<Rightarrow> store \<Rightarrow> string list option \<Rightarrow> panic + ((string \<rightharpoonup> string) \<times> store \<times> AWSOMLP)" where
  "Parse L lp h logLines =
     (case logLines of
        None \<Rightarrow> Inr (Map.empty, h, lp)
      | Some lines \<Rightarrow>
          let new = map (Preprocess lp) (List.map_filter prepareLine lines);
              events = [length h ..< length h + length new];
              h1 = h @ new;
              lp1 = patternRecognition L h1 lp events in
          case frequencyAnalysis L lp1 h1 of
            Inl e \<Rightarrow> Inl e
          | Inr (h2, lp2) \<Rightarrow>
              (case replaceRemainingNumericalVariables lp2 h2 of
                 Inl e \<Rightarrow> Inl e
               | Inr (h3, lp3) \<Rightarrow> Inr (collectResults h3 events, h3, lp3)))"

definition isValidTemplate :: "AWSOMLP \<Rightarrow> string \<Rightarrow> bool" where
  "isValidTemplate lp template =
     (if template = [] then False
      else
        let tokens = Fields template in
        if length tokens = 0 then False
        else MinTemplateTokens (config lp)
               \<le> int (length (filter (\<lambda>token. token \<noteq> ''<*>'') tokens)))"

definition GetTemplates :: "AWSOMLP \<Rightarrow> string list" where
  "GetTemplates lp =
     sortSlice strLess
       (foldl (\<lambda>templates p.
                 let template = TrimSpace (Pattern.Template p) in
                 if isValidTemplate lp template \<and> template \<notin> set templates
                 then templates @ [template] else templates)
          [] (patterns lp))"

section \<open>Properties of similarity and pattern recognition\<close>

text \<open>The letters of ASCII, where \<open>unicode.IsLetter\<close> is known in closed form.\<close>

definition asciiLetter :: "rune \<Rightarrow> bool" where
  "asciiLetter r = ((65 \<le> r \<and> r \<le> 90) \<or> (97 \<le> r \<and> r \<le> 122))"

definition ev :: "string list \<Rightarrow> LogEvent" where
  "ev ts = \<lparr>Raw = Join ts, Content = Join ts, Tokens = ts, Template = []\<rparr>"

lemma tokensEqualFrom_eq: "length xs = length ys \<Longrightarrow> tokensEqualFrom xs ys = (xs = ys)"
  by (induction xs ys rule: list_induct2) auto

lemma alphabeticalTokensMatch_eq: "alphabeticalTokensMatch xs ys = (xs = ys)"
  by (auto simp: alphabeticalTokensMatch_def tokensEqualFrom_eq)

text \<open>
  The words of the specification, apart from the code: a token is alphabetical when it
  is not the placeholder marker and every one of its characters is a letter (a token is
  never empty); the letter count of an event is the number of letters in its
  alphabetical tokens, and its alphabetical sequence is the list of these tokens in
  order.
\<close>

definition alphabetical :: "(rune \<Rightarrow> bool) \<Rightarrow> string \<Rightarrow> bool" where
  "alphabetical L t = (t \<noteq> ''<*>'' \<and> t \<noteq> [] \<and> (\<forall>r \<in> set (runes t). L r))"

definition letterCount :: "(rune \<Rightarrow> bool) \<Rightarrow> LogEvent \<Rightarrow> nat" where
  "letterCount L e = (\<Sum>t \<leftarrow> filter (alphabetical L) (Tokens e). length (filter L (runes t)))"

definition alphabeticalSeq :: "(rune \<Rightarrow> bool) \<Rightarrow> LogEvent \<Rightarrow> string list" where
  "alphabeticalSeq L e = filter (alphabetical L) (Tokens e)"

lemma isAlphabeticalToken_iff: "isAlphabeticalToken L t = alphabetical L t"
  by (auto simp: isAlphabeticalToken_def alphabetical_def list_ex_iff)

lemma count_fold:
  "foldl (\<lambda>count token. if P token then count + f token else count) (n::nat) ts
     = n + (\<Sum>t \<leftarrow> filter P ts. f t)"
  by (induction ts arbitrary: n) simp_all

lemma countAlphabeticalLetters_letterCount: "countAlphabeticalLetters L e = letterCount L e"
proof -
  have "isAlphabeticalToken L = alphabetical L"
    by (rule ext) (rule isAlphabeticalToken_iff)
  then show ?thesis
    by (simp add: countAlphabeticalLetters_def letterCount_def count_fold)
qed

lemma getAlphabeticalTokens_alphabeticalSeq: "getAlphabeticalTokens L e = alphabeticalSeq L e"
proof -
  have "isAlphabeticalToken L = alphabetical L"
    by (rule ext) (rule isAlphabeticalToken_iff)
  then show ?thesis
    by (simp add: getAlphabeticalTokens_def alphabeticalSeq_def)
qed

text \<open>
  C2. With \<open>n1\<close> and \<open>n2\<close> the numbers of letters in the alphabetical tokens of two
  events (\<open>letterCount\<close>: tokens all of whose characters are letters and that are not the
  placeholder), their similarity lies between 0 and 1; it is 0 when \<open>n1\<close> or \<open>n2\<close> is
  0; otherwise it is \<open>min n1 n2 / max n1 n2\<close>, except that under strict alphabetical
  matching it is 0 when the ordered sequences of alphabetical tokens differ; and it is
  the same in both orders of the events, in every configuration.
\<close>

theorem calculateSimilarity_spec:
  fixes L lp a b
  defines "n1 \<equiv> letterCount L a" and "n2 \<equiv> letterCount L b"
  defines "sim \<equiv> calculateSimilarity L lp"
  shows "0 \<le> sim a b \<and> sim a b \<le> 1
    \<and> (n1 = 0 \<or> n2 = 0 \<longrightarrow> sim a b = 0)
    \<and> (n1 \<noteq> 0 \<and> n2 \<noteq> 0 \<and> \<not> StrictAlphabeticalMatching (config lp) \<longrightarrow>
         sim a b = of_nat (min n1 n2) / of_nat (max n1 n2))
    \<and> (n1 \<noteq> 0 \<and> n2 \<noteq> 0 \<and> StrictAlphabeticalMatching (config lp) \<longrightarrow>
         sim a b = (if alphabeticalSeq L a = alphabeticalSeq L b
                    then of_nat (min n1 n2) / of_nat (max n1 n2) else 0))
    \<and> sim a b = sim b a"
proof -
  have ratio: "0 \<le> (of_nat (min n1 n2) :: rat) / of_nat (max n1 n2)"
       "(of_nat (min n1 n2) :: rat) / of_nat (max n1 n2) \<le> 1" if "n1 \<noteq> 0" "n2 \<noteq> 0"
    using that by (auto simp: divide_le_eq_1 min_def max_def)
  have mm: "(if n2 < n1 then n2 else n1) = min n1 n2" "(if n2 < n1 then n1 else n2) = max n1 n2"
    by (simp_all add: min_def max_def)
  have val: "sim a b = (if n1 = 0 \<or> n2 = 0 then 0
      else if StrictAlphabeticalMatching (config lp) \<and>
              alphabeticalSeq L a \<noteq> alphabeticalSeq L b then 0
      else of_nat (min n1 n2) / of_nat (max n1 n2))"
    unfolding sim_def calculateSimilarity_def countAlphabeticalLetters_letterCount
      getAlphabeticalTokens_alphabeticalSeq n1_def [symmetric] n2_def [symmetric]
      Let_def mm alphabeticalTokensMatch_eq by simp
  have val': "sim b a = (if n1 = 0 \<or> n2 = 0 then 0
      else if StrictAlphabeticalMatching (config lp) \<and>
              alphabeticalSeq L a \<noteq> alphabeticalSeq L b then 0
      else of_nat (min n1 n2) / of_nat (max n1 n2))"
    unfolding sim_def calculateSimilarity_def countAlphabeticalLetters_letterCount
      getAlphabeticalTokens_alphabeticalSeq n1_def [symmetric] n2_def [symmetric]
      Let_def alphabeticalTokensMatch_eq by (auto simp: min_def max_def)
  show ?thesis
    using ratio unfolding val val' by auto
qed

definition strictLP :: AWSOMLP where
  "strictLP = NewAWSOMLP\<lparr>config := DefaultConfig\<lparr>StrictAlphabeticalMatching := True\<rparr>\<rparr>"

lemma letters_ex1: "letterCount asciiLetter (ev [''abc'', ''x12'', ''de'', ''<*>'']) = 5"
  by code_simp

lemma letters_ex2: "letterCount asciiLetter (ev [''abcde'', ''7'']) = 5"
  by code_simp

lemma letters_ex3: "letterCount asciiLetter (ev [''abc'', ''12'']) = 3"
  by code_simp

lemma letters_ex4: "letterCount asciiLetter (ev [''abc123'', ''<*>'']) = 0"
  by code_simp

lemma seq_ex1: "alphabeticalSeq asciiLetter (ev [''abc'', ''x12'', ''de'', ''<*>'']) = [''abc'', ''de'']"
  by code_simp

lemma seq_ex2: "alphabeticalSeq asciiLetter (ev [''abcde'', ''7'']) = [''abcde'']"
  by code_simp

lemma seq_ex3: "alphabeticalSeq asciiLetter (ev [''<*>'', ''abc'', ''de'', ''9z'']) = [''abc'', ''de'']"
  by code_simp

lemma letters_ex5: "letterCount asciiLetter (ev [''<*>'', ''abc'', ''de'', ''9z'']) = 5"
  by code_simp

lemma strict_off: "\<not> StrictAlphabeticalMatching (config NewAWSOMLP)"
  by code_simp

lemma strict_on: "StrictAlphabeticalMatching (config strictLP)"
  by code_simp

theorem calculateSimilarity_spec_witness:
  "calculateSimilarity asciiLetter NewAWSOMLP
       (ev [''abc'', ''x12'', ''de'', ''<*>'']) (ev [''abc'', ''12'']) = 3 / 5
   \<and> calculateSimilarity asciiLetter NewAWSOMLP
       (ev [''abc'', ''x12'', ''de'', ''<*>'']) (ev [''abcde'', ''7'']) = 1
   \<and> calculateSimilarity asciiLetter strictLP
       (ev [''abc'', ''x12'', ''de'', ''<*>'']) (ev [''abcde'', ''7'']) = 0
   \<and> calculateSimilarity asciiLetter strictLP
       (ev [''abc'', ''x12'', ''de'', ''<*>'']) (ev [''<*>'', ''abc'', ''de'', ''9z'']) = 1
   \<and> calculateSimilarity asciiLetter NewAWSOMLP
       (ev [''abc123'', ''<*>'']) (ev [''abc'', ''12'']) = 0"
  using
    calculateSimilarity_spec [of asciiLetter NewAWSOMLP
      "ev [''abc'', ''x12'', ''de'', ''<*>'']" "ev [''abc'', ''12'']"]
    calculateSimilarity_spec [of asciiLetter NewAWSOMLP
      "ev [''abc'', ''x12'', ''de'', ''<*>'']" "ev [''abcde'', ''7'']"]
    calculateSimilarity_spec [of asciiLetter strictLP
      "ev [''abc'', ''x12'', ''de'', ''<*>'']" "ev [''abcde'', ''7'']"]
    calculateSimilarity_spec [of asciiLetter strictLP
      "ev [''abc'', ''x12'', ''de'', ''<*>'']" "ev [''<*>'', ''abc'', ''de'', ''9z'']"]
    calculateSimilarity_spec [of asciiLetter NewAWSOMLP
      "ev [''abc123'', ''<*>'']" "ev [''abc'', ''12'']"]
  by (simp add: letters_ex1 letters_ex2 letters_ex3 letters_ex4 letters_ex5
      seq_ex1 seq_ex2 seq_ex3 strict_off strict_on)

text \<open>
  A pattern takes an event when it has events and the similarity of the event to the
  pattern's first event reaches the threshold.
\<close>

definition takesEvent :: "(rune \<Rightarrow> bool) \<Rightarrow> AWSOMLP \<Rightarrow> store \<Rightarrow> addr \<Rightarrow> Pattern \<Rightarrow> bool" where
  "takesEvent L lp h e p =
     (Events p \<noteq> [] \<and>
      MinSimilarity (config lp) \<le> calculateSimilarity L lp (h ! e) (h ! (Events p ! 0)))"

lemma tryPatterns_none:
  "(\<forall>p \<in> set ps. \<not> takesEvent L lp h e p) \<Longrightarrow> tryPatterns L lp h e ps = None"
  by (induction ps) (auto simp: takesEvent_def)

lemma tryPatterns_first:
  "i < length ps \<Longrightarrow> takesEvent L lp h e (ps ! i) \<Longrightarrow>
   (\<forall>j < i. \<not> takesEvent L lp h e (ps ! j)) \<Longrightarrow>
   tryPatterns L lp h e ps = Some (ps[i := (ps ! i)\<lparr>Events := Events (ps ! i) @ [e]\<rparr>])"
proof (induction ps arbitrary: i)
  case Nil
  then show ?case by simp
next
  case (Cons p ps)
  show ?case
  proof (cases i)
    case 0
    with Cons.prems show ?thesis by (simp add: takesEvent_def)
  next
    case (Suc k)
    with Cons.prems have np: "\<not> takesEvent L lp h e p" by auto
    from Suc Cons.prems have "tryPatterns L lp h e ps
        = Some (ps[k := (ps ! k)\<lparr>Events := Events (ps ! k) @ [e]\<rparr>])"
      by (intro Cons.IH) auto
    with np Suc show ?thesis by (auto simp: takesEvent_def)
  qed
qed

text \<open>
  C1. Pattern recognition handles the events in input order, one after the other. For
  one event, the first pattern in creation order that takes it (similarity to the
  pattern's first event at least the threshold) gets the event appended, and no other
  pattern changes; when no pattern takes it, a new pattern is appended whose only event
  is this one and whose id is the number of patterns before.
\<close>

theorem patternRecognition_first_fit:
  "patternRecognition L h lp [] = lp
   \<and> patternRecognition L h lp (e # es) = patternRecognition L h (assignEvent L h lp e) es
   \<and> (\<forall>i. i < length (patterns lp) \<and> takesEvent L lp h e (patterns lp ! i)
           \<and> (\<forall>j < i. \<not> takesEvent L lp h e (patterns lp ! j)) \<longrightarrow>
        assignEvent L h lp e =
          lp\<lparr>patterns := (patterns lp)[i := (patterns lp ! i)
                 \<lparr>Events := Events (patterns lp ! i) @ [e]\<rparr>]\<rparr>)
   \<and> ((\<forall>p \<in> set (patterns lp). \<not> takesEvent L lp h e p) \<longrightarrow>
        assignEvent L h lp e =
          lp\<lparr>patterns := patterns lp @
             [\<lparr>ID = int (length (patterns lp)), Events = [e], Template = [],
               Frequency = []\<rparr>]\<rparr>)"
proof -
  have "assignEvent L h lp e =
          lp\<lparr>patterns := (patterns lp)[i := (patterns lp ! i)
                 \<lparr>Events := Events (patterns lp ! i) @ [e]\<rparr>]\<rparr>"
    if "i < length (patterns lp)" "takesEvent L lp h e (patterns lp ! i)"
       "\<forall>j < i. \<not> takesEvent L lp h e (patterns lp ! j)" for i
    using tryPatterns_first [OF that] by (simp add: assignEvent_def)
  then show ?thesis
    by (simp add: assignEvent_def tryPatterns_none newPattern_def)
qed

definition store3 :: store where
  "store3 = [ev [''abc''], ev [''abcdef'', ''7''], ev [''12'', ''uvwxyz''], ev [''abcd'']]"

definition twoPatterns :: AWSOMLP where
  "twoPatterns = NewAWSOMLP\<lparr>patterns :=
     [\<lparr>ID = 0, Events = [0], Template = [], Frequency = []\<rparr>,
      \<lparr>ID = 1, Events = [1], Template = [], Frequency = []\<rparr>]\<rparr>"

lemma twoPatterns_0: "\<not> takesEvent asciiLetter twoPatterns store3 2 (patterns twoPatterns ! 0)"
  by code_simp

lemma twoPatterns_1: "takesEvent asciiLetter twoPatterns store3 2 (patterns twoPatterns ! 1)"
  by code_simp

lemma twoPatterns_none: "\<forall>p \<in> set (patterns twoPatterns). \<not> takesEvent asciiLetter twoPatterns store3 3 p"
  by code_simp

text \<open>
  With threshold 1/2 the event at address 2 (six letters) reaches the threshold exactly
  on the first pattern (three letters, similarity 1/2) and exceeds it on the second
  (six letters, similarity 1): the first pattern takes it.
\<close>

definition halfPatterns :: AWSOMLP where
  "halfPatterns = twoPatterns\<lparr>config := DefaultConfig\<lparr>MinSimilarity := 1 / 2\<rparr>\<rparr>"

lemma halfPatterns_0: "takesEvent asciiLetter halfPatterns store3 2 (patterns halfPatterns ! 0)"
  by code_simp

lemma halfPatterns_1: "takesEvent asciiLetter halfPatterns store3 2 (patterns halfPatterns ! 1)"
  by code_simp

theorem patternRecognition_first_fit_witness:
  "assignEvent asciiLetter store3 twoPatterns 2 = twoPatterns\<lparr>patterns :=
     [\<lparr>ID = 0, Events = [0], Template = [], Frequency = []\<rparr>,
      \<lparr>ID = 1, Events = [1, 2], Template = [], Frequency = []\<rparr>]\<rparr>
   \<and> assignEvent asciiLetter store3 twoPatterns 3 = twoPatterns\<lparr>patterns :=
     [\<lparr>ID = 0, Events = [0], Template = [], Frequency = []\<rparr>,
      \<lparr>ID = 1, Events = [1], Template = [], Frequency = []\<rparr>,
      \<lparr>ID = 2, Events = [3], Template = [], Frequency = []\<rparr>]\<rparr>
   \<and> assignEvent asciiLetter store3 halfPatterns 2 = halfPatterns\<lparr>patterns :=
     [\<lparr>ID = 0, Events = [0, 2], Template = [], Frequency = []\<rparr>,
      \<lparr>ID = 1, Events = [1], Template = [], Frequency = []\<rparr>]\<rparr>"
proof -
  have len: "(1::nat) < length (patterns twoPatterns)" by (simp add: twoPatterns_def)
  have before: "\<forall>j < (1::nat). \<not> takesEvent asciiLetter twoPatterns store3 2 (patterns twoPatterns ! j)"
    using twoPatterns_0 by simp
  from patternRecognition_first_fit [of asciiLetter store3 twoPatterns 2 "[]"]
    len twoPatterns_1 before
  have "assignEvent asciiLetter store3 twoPatterns 2 =
      twoPatterns\<lparr>patterns := (patterns twoPatterns)[1 := (patterns twoPatterns ! 1)
                 \<lparr>Events := Events (patterns twoPatterns ! 1) @ [2]\<rparr>]\<rparr>"
    by blast
  moreover from patternRecognition_first_fit [of asciiLetter store3 twoPatterns 3 "[]"]
    twoPatterns_none
  have "assignEvent asciiLetter store3 twoPatterns 3 =
      twoPatterns\<lparr>patterns := patterns twoPatterns @
         [\<lparr>ID = int (length (patterns twoPatterns)), Events = [3], Template = [],
           Frequency = []\<rparr>]\<rparr>"
    by blast
  moreover have len0: "(0::nat) < length (patterns halfPatterns)"
    by (simp add: halfPatterns_def twoPatterns_def)
  from patternRecognition_first_fit [of asciiLetter store3 halfPatterns 2 "[]"]
    len0 halfPatterns_0
  have "assignEvent asciiLetter store3 halfPatterns 2 =
      halfPatterns\<lparr>patterns := (patterns halfPatterns)[0 := (patterns halfPatterns ! 0)
                 \<lparr>Events := Events (patterns halfPatterns ! 0) @ [2]\<rparr>]\<rparr>"
    by blast
  ultimately show ?thesis by (simp add: twoPatterns_def halfPatterns_def)
qed

section \<open>The frequency threshold\<close>

























definition storeW :: store where
  "storeW = [ev [''x'', ''a'', ''a''], ev [''x'', ''b'']]"







lemma countFrequency_ex: "countFrequency storeW [0, 1] = [(''x'', 2), (''a'', 2), (''b'', 1)]"
  by code_simp



section \<open>The numeric cleanup pass\<close>

text \<open>
  C8. The cleanup pass is not idempotent. On the template \<open>a -1 -2 b\<close> the match of
  \<open>\s-?\d+(\.\d+)?\s\<close> on \<open>-1\<close> takes the space that a match on \<open>-2\<close> would need, no
  later pattern matches \<open>-2\<close>, and the pass returns \<open>a <*> -2 b\<close>; a second pass
  returns \<open>a <*> <*> b\<close>.
\<close>

theorem cleanTemplate_twice_differs:
  "cleanTemplate ''a -1 -2 b'' = Inr ''a <*> -2 b''
   \<and> cleanTemplate ''a <*> -2 b'' = Inr ''a <*> <*> b''"
  by code_simp

section \<open>Configuration errors\<close>

text \<open>
  The example of a configuration whose only fault is a custom expression that does not
  compile, \<open>Config{CustomRegexes: []string{"[invalid regex"}}\<close>, on a new engine.
  \<open>defaultHeaderRegexp\<close> is the compiled \<open>DefaultHeaderRegex\<close>; \<open>compileExample\<close> is
  \<open>regexp.Compile\<close> on the expressions of the example (the default header expression
  compiles, the custom one does not).
\<close>

definition defaultHeaderRegexp :: regex where
  "defaultHeaderRegexp =
     seqs [Bol,
           opt (seqs [rep dg 4, chr CHR ''-'', rep dg 2, chr CHR ''-'', rep dg 2,
                      Cls False [one CHR ''T'', (9, 10), (12, 13), (32, 32)],
                      hms, opt (seqs [chr CHR ''.'', plus dg]),
                      opt (Alt (seqs [Cls False [one CHR ''+'', one CHR ''-''], rep dg 2,
                                      chr CHR '':'', rep dg 2])
                               (chr CHR ''Z'')),
                      Cls False [one CHR '','', one CHR '':''], Star ws]),
           Grp 1 (plus (Cls True [(10, 10)])),
           Eol]"

definition compileExample :: "string \<Rightarrow> regex option" where
  "compileExample s = (if s = DefaultHeaderRegex then Some defaultHeaderRegexp else None)"

definition zeroConfig :: Config where
  "zeroConfig =
     \<lparr>MinSimilarity = 0, SortingStrategy = SortNone, CustomRegexes = None, HeaderRegex = [],
      MinGroupSize = 0, MaxPlaceholderRatio = 0, MinTemplateTokens = 0,
      FreqThresholdStrategy = FreqMin, FreqPercentileVal = 0,
      StrictAlphabeticalMatching = False, ApplyFreqAnalysisToSmallGroups = False\<rparr>"

lemma WithConfig_early_error:
  "validateConfig (fillDefaults cfg) = Some e \<Longrightarrow> WithConfig compile cfg lp = (Some e, lp)"
  "validateConfig (fillDefaults cfg) = None \<Longrightarrow> compile (HeaderRegex (fillDefaults cfg)) = None \<Longrightarrow>
     WithConfig compile cfg lp = (Some InvalidHeaderRegex, lp)"
  by (simp_all add: WithConfig_def Let_def)

lemma DefaultHeaderRegex_nonempty: "DefaultHeaderRegex \<noteq> []"
  by (simp add: DefaultHeaderRegex_def)

lemma fill_zero:
  "fillDefaults (zeroConfig\<lparr>CustomRegexes := Some ps\<rparr>) = DefaultConfig
     \<lparr>CustomRegexes := Some ps, ApplyFreqAnalysisToSmallGroups := False\<rparr>"
  by (simp add: fillDefaults_def zeroConfig_def DefaultConfig_def Let_def DefaultHeaderRegex_nonempty)


lemma removeHeader_before: "removeHeader NewAWSOMLP ''2024-01-15 10:30:15: x'' = ''2024-01-15 10:30:15: x''"
  by (simp add: removeHeader_def NewAWSOMLP_def)

lemma removeHeader_after:
  "removeHeader (NewAWSOMLP\<lparr>headerRegex := Some defaultHeaderRegexp\<rparr>) ''2024-01-15 10:30:15: x'' = ''x''"
  by code_simp

text \<open>
  C6. \<open>WithConfig\<close> checks the numeric parameters and the header expression before it
  changes the engine, but it stores the compiled header expression and empties
  \<open>customRegexes\<close> before it compiles the custom expressions: when one of these does not
  compile, the call returns the error and the engine keeps the new header expression.
  Here the engine had none, and after the rejected call it strips a timestamp that it
  kept before.
\<close>

theorem WithConfig_bad_custom_regex:
  "WithConfig compileExample (zeroConfig\<lparr>CustomRegexes := Some [''[invalid regex'']\<rparr>) NewAWSOMLP
     = (Some (InvalidCustomRegex ''[invalid regex''),
        NewAWSOMLP\<lparr>headerRegex := Some defaultHeaderRegexp\<rparr>)
   \<and> headerRegex NewAWSOMLP = None
   \<and> removeHeader NewAWSOMLP ''2024-01-15 10:30:15: x'' = ''2024-01-15 10:30:15: x''
   \<and> removeHeader (NewAWSOMLP\<lparr>headerRegex := Some defaultHeaderRegexp\<rparr>)
         ''2024-01-15 10:30:15: x'' = ''x''"
proof -
  have ne: "''[invalid regex'' \<noteq> DefaultHeaderRegex"
    by (simp add: DefaultHeaderRegex_def)
  have v: "validateConfig (DefaultConfig\<lparr>CustomRegexes := Some [''[invalid regex''],
             ApplyFreqAnalysisToSmallGroups := False\<rparr>) = None"
    by (simp add: validateConfig_def DefaultConfig_def)
  have "WithConfig compileExample (zeroConfig\<lparr>CustomRegexes := Some [''[invalid regex'']\<rparr>) NewAWSOMLP
     = (Some (InvalidCustomRegex ''[invalid regex''),
        NewAWSOMLP\<lparr>headerRegex := Some defaultHeaderRegexp\<rparr>)"
    unfolding WithConfig_def fill_zero Let_def v
    by (simp add: compileExample_def DefaultConfig_def ne NewAWSOMLP_def)
  moreover have "headerRegex NewAWSOMLP = None"
    by (simp add: NewAWSOMLP_def)
  ultimately show ?thesis
    using removeHeader_before removeHeader_after by simp
qed

section \<open>Frequency analysis of a pattern\<close>







lemma setTemplate_length: "length (setTemplate h t evs) = length h"
proof -
  have "length (foldl (\<lambda>h a. h[a := (h ! a)\<lparr>LogEvent.Template := t\<rparr>]) h evs) = length h" for h
    by (induction evs arbitrary: h) simp_all
  then show ?thesis by (simp add: setTemplate_def)
qed












end
